theory Spec2Isabelle
  imports Complex_Main "HOL-Library.Monad_Syntax"
begin

section \<open>Numbers\<close>

text \<open>
  A JavaScript number is modelled as a real: arithmetic is exact, and the channels of a
  color are numbers. The library's arithmetic can leave the reals in two ways.
  \<^verbatim>\<open>Math.sqrt\<close> of a negative argument yields NaN; NaN is modelled by \<open>None\<close>, and since
  every arithmetic operation maps NaN to NaN, a computation that meets a NaN is a
  computation in the option monad. A division by zero yields an infinity or NaN; the
  divisions of the library are written as divisions of reals, and the section on divisors
  shows that no divisor is zero.

  Rounding, underflow and the sign of zero are not modelled. Double precision differs
  from exact arithmetic in kind, not only in the last digits, at two places of the
  library: the radicand of the hue difference of \<^verbatim>\<open>cie1994\<close> and \<^verbatim>\<open>cmc1984\<close>, which is
  never negative in exact arithmetic and can be in doubles, and the hue of \<^verbatim>\<open>labToLch\<close>,
  which is below 360 in exact arithmetic and can be rounded to 360 in doubles. The
  theorems below state a result through the operations that compute it and do not rest
  on the exact answer at these places.
\<close>

type_synonym Color = "real list"

definition Math_sqrt :: "real \<Rightarrow> real option" where
  "Math_sqrt x = (if x < 0 then None else Some (sqrt x))"

text \<open>\<^verbatim>\<open>Math.atan2(y, x)\<close>: the angle of the point \<open>(x, y)\<close>, in \<open>(-\<pi>, \<pi>]\<close>, and 0 at the origin.\<close>

definition Math_atan2 :: "real \<Rightarrow> real \<Rightarrow> real" where
  "Math_atan2 y x =
     (if 0 < x then arctan (y / x)
      else if x < 0 then (if 0 \<le> y then arctan (y / x) + pi else arctan (y / x) - pi)
      else if 0 < y then pi / 2
      else if y < 0 then - (pi / 2)
      else 0)"

text \<open>
  The \<^verbatim>\<open>%\<close> operator: the remainder of the division truncated towards zero, so the
  result has the sign of the dividend. (The library only divides by 360.)
\<close>

definition trunc :: "real \<Rightarrow> int" where
  "trunc x = (if 0 \<le> x then \<lfloor>x\<rfloor> else \<lceil>x\<rceil>)"

definition js_rem :: "real \<Rightarrow> real \<Rightarrow> real" where
  "js_rem x y = x - y * of_int (trunc (x / y))"

section \<open>trigDegreeLib.js\<close>

definition radToDeg :: "real \<Rightarrow> real" where
  "radToDeg x = x * 180 / pi"

definition degToRad :: "real \<Rightarrow> real" where
  "degToRad x = x * pi / 180"

definition cosd :: "real \<Rightarrow> real" where
  "cosd x = cos (degToRad x)"

definition sind :: "real \<Rightarrow> real" where
  "sind x = sin (degToRad x)"

definition atan2d :: "real \<Rightarrow> real \<Rightarrow> real" where
  "atan2d x y = radToDeg (Math_atan2 x y)"

section \<open>ColorError.js\<close>

text \<open>
  The two error classes, each with the arguments of its constructor. The message of a
  \<^verbatim>\<open>CoordinateRangeError\<close> is built from one line per channel whose check failed; a line
  is kept as the channel's name, its value and the range it names.
\<close>

datatype ColorError =
  ChannelCountError "real list" nat
| CoordinateRangeError "real list" "bool list"

datatype range_line = Expected string real string

fun CoordinateRangeError_err :: "Color \<Rightarrow> bool list \<Rightarrow> range_line list" where
  "CoordinateRangeError_err [l, a, b] [lCheck, aCheck, bCheck] =
     (if \<not> lCheck then [Expected ''l*'' l ''[0, 100]''] else []) @
     (if \<not> aCheck then [Expected ''a*'' a ''[-128, 127]''] else []) @
     (if \<not> bCheck then [Expected ''b*'' b ''[-128, 127]''] else [])"

fun err_lines :: "ColorError \<Rightarrow> range_line list" where
  "err_lines (CoordinateRangeError x checks) = CoordinateRangeError_err x checks"
| "err_lines (ChannelCountError x n) = []"

section \<open>colorUtils.js\<close>

text \<open>
  \<^verbatim>\<open>_isValidLabColor([l, a, b])\<close>: the pattern takes the first three elements; an element
  the array does not have is \<^verbatim>\<open>undefined\<close>, and every comparison with it is false.
\<close>

fun isValidLabColor :: "Color \<Rightarrow> bool list" where
  "isValidLabColor (l # a # b # _) =
     (let lWithinRange = (l \<ge> 0 \<and> l \<le> 100);
          aWithinRange = (a \<ge> -128 \<and> a \<le> 127);
          bWithinRange = (b \<ge> -128 \<and> b \<le> 127)
      in [lWithinRange, aWithinRange, bWithinRange])"
| "isValidLabColor [l, a] = [l \<ge> 0 \<and> l \<le> 100, a \<ge> -128 \<and> a \<le> 127, False]"
| "isValidLabColor [l] = [l \<ge> 0 \<and> l \<le> 100, False, False]"
| "isValidLabColor [] = [False, False, False]"

definition NUM_CHANNELS :: nat where
  "NUM_CHANNELS = 3"

definition checkColor :: "real list \<Rightarrow> bool \<Rightarrow> ColorError + Color" where
  "checkColor x discardExcessChannels =
     (case (if length x \<noteq> NUM_CHANNELS then
              (if discardExcessChannels \<and> length x > NUM_CHANNELS
               then Inr (take NUM_CHANNELS x)
               else Inl (ChannelCountError x NUM_CHANNELS))
            else Inr x) of
        Inl e \<Rightarrow> Inl e
      | Inr threeChannelColor \<Rightarrow>
          (let colorCoordTest = isValidLabColor threeChannelColor
           in if \<not> list_all (\<lambda>e. e) colorCoordTest
              then Inl (CoordinateRangeError threeChannelColor colorCoordTest)
              else Inr threeChannelColor))"

text \<open>
  The decorator: both colors are checked, the first one first, and the decorated function
  runs on the checked colors. An error of a check is the result of the call.
\<close>

definition validateColorInputs ::
  "bool \<Rightarrow> (Color \<Rightarrow> Color \<Rightarrow> 'r) \<Rightarrow> real list \<Rightarrow> real list \<Rightarrow> ColorError + 'r" where
  "validateColorInputs discardExcessChannels originalFunc arg0 arg1 =
     (case checkColor arg0 discardExcessChannels of
        Inl e \<Rightarrow> Inl e
      | Inr c0 \<Rightarrow>
          (case checkColor arg1 discardExcessChannels of
             Inl e \<Rightarrow> Inl e
           | Inr c1 \<Rightarrow> Inr (originalFunc c0 c1)))"

text \<open>The two loops of \<^verbatim>\<open>labToLch\<close> that shift the hue.\<close>

function shiftDown :: "real \<Rightarrow> real" where
  "shiftDown H = (if H \<ge> 360 then shiftDown (H - 360) else H)"
  by pat_completeness auto
termination
  by (relation "measure (\<lambda>H. nat \<lfloor>H\<rfloor>)") simp_all

function shiftUp :: "real \<Rightarrow> real" where
  "shiftUp H = (if H < 0 then shiftUp (H + 360) else H)"
  by pat_completeness auto
termination
proof (relation "measure (\<lambda>H. nat \<lceil>- H\<rceil>)")
  show "wf (measure (\<lambda>H::real. nat \<lceil>- H\<rceil>))"
    by simp
next
  fix H :: real
  assume h: "H < 0"
  have "\<lceil>- (H + 360)\<rceil> = \<lceil>- H\<rceil> - 360"
    by simp
  moreover have "0 < \<lceil>- H\<rceil>"
    using h by simp
  ultimately show "(H + 360, H) \<in> measure (\<lambda>H. nat \<lceil>- H\<rceil>)"
    by simp
qed

declare shiftDown.simps [simp del] shiftUp.simps [simp del]

text \<open>
  \<^verbatim>\<open>labToLch\<close> takes the array \<^verbatim>\<open>[L, a, b]\<close> apart; the library calls it on
  three-element arrays only, and other shapes have no equation here.
\<close>

fun labToLch :: "Color \<Rightarrow> Color option" where
  "labToLch [L, a, b] = do {
     C \<leftarrow> Math_sqrt (a * a + b * b);
     let H = (if C \<le> 0 then 0 else atan2d b a);
     let H = shiftDown H;
     let H = shiftUp H;
     Some [L, C, H]
   }"

section \<open>DeltaE.js\<close>

definition getklValueFromType :: "string \<Rightarrow> real" where
  "getklValueFromType applicationType =
     (if applicationType = ''textiles'' then 2
      else if applicationType = ''graphicArts'' then 1
      else 1)"

text \<open>
  The decorator hands a formula two checked colors, which have three channels each; the
  formulas take them apart as \<^verbatim>\<open>[l1, a1, b1]\<close> and \<^verbatim>\<open>[l2, a2, b2]\<close>, and have no
  equation for other shapes. For the longer formulas the computation on the six channels
  is a definition (\<open>_formula\<close>) and taking the arrays apart is a function of its own. An
  optional string argument is \<open>None\<close> when the caller leaves it out.
\<close>

fun cie1976_body :: "Color \<Rightarrow> Color \<Rightarrow> real option" where
  "cie1976_body [l1, a1, b1] [l2, a2, b2] =
     (let lDiff = l2 - l1;
          aDiff = a2 - a1;
          bDiff = b2 - b1
      in Math_sqrt (lDiff * lDiff + aDiff * aDiff + bDiff * bDiff))"

definition cie1976 :: "real list \<Rightarrow> real list \<Rightarrow> ColorError + real option" where
  "cie1976 = validateColorInputs False cie1976_body"

definition cie1994_formula ::
  "real \<Rightarrow> real \<Rightarrow> real \<Rightarrow> real \<Rightarrow> real \<Rightarrow> real \<Rightarrow> string option \<Rightarrow> real option" where
  "cie1994_formula l1 a1 b1 l2 a2 b2 applicationTypeArg =
     (let applicationType =
            (case applicationTypeArg of None \<Rightarrow> ''graphicArts'' | Some s \<Rightarrow> s);
          kl = getklValueFromType applicationType;
          kc = 1;
          kh = 1;
          k1 = (if applicationType = ''textiles'' then 0.048 else 0.045);
          k2 = (if applicationType = ''textiles'' then 0.014 else 0.015)
      in do {
        c1 \<leftarrow> Math_sqrt (a1 * a1 + b1 * b1);
        c2 \<leftarrow> Math_sqrt (a2 * a2 + b2 * b2);
        let deltaA = a1 - a2;
        let deltaB = b1 - b2;
        let deltaC = c1 - c2;
        deltaH \<leftarrow> Math_sqrt (deltaA * deltaA + deltaB * deltaB - deltaC * deltaC);
        let deltaL = l1 - l2;
        let sl = 1;
        let sc = 1 + k1 * c1;
        let sh = 1 + k2 * c2;
        let firstTerm = deltaL / (kl * sl);
        let secondTerm = deltaC / (kc * sc);
        let thirdTerm = deltaH / (kh * sh);
        Math_sqrt (firstTerm * firstTerm + secondTerm * secondTerm + thirdTerm * thirdTerm)
      })"

fun cie1994_body :: "Color \<Rightarrow> Color \<Rightarrow> string option \<Rightarrow> real option" where
  "cie1994_body [l1, a1, b1] [l2, a2, b2] applicationType =
     cie1994_formula l1 a1 b1 l2 a2 b2 applicationType"

definition cie1994 ::
  "real list \<Rightarrow> real list \<Rightarrow> string option \<Rightarrow> ColorError + real option" where
  "cie1994 x y applicationType =
     validateColorInputs False (\<lambda>c0 c1. cie1994_body c0 c1 applicationType) x y"

text \<open>
  \<^verbatim>\<open>ciede2000\<close>. The function is one long sequence of constants; its value is kept
  together with the constants it is computed from, in a record whose fields have the
  names of the source. Five stretches of the sequence are definitions of their own, so
  that each can be reasoned about alone: the coefficient of the \<open>a'\<close> adjustment, the hue
  of one color, the three hue terms, the cosine series \<open>T\<close> and the rotation term.
\<close>

definition cCoeff_of :: "real \<Rightarrow> real option" where
  "cCoeff_of cBar =
     (let cBarPow7 = cBar ^ 7
      in Math_sqrt (cBarPow7 / (cBarPow7 + 25 ^ 7)))"

definition hPrime_of :: "real \<Rightarrow> real \<Rightarrow> real" where
  "hPrime_of aPrime b =
     (if aPrime = 0 \<and> b = 0 then 0 else js_rem (atan2d b aPrime) 360)"

definition hueTerms :: "real \<Rightarrow> real \<Rightarrow> real \<Rightarrow> real \<Rightarrow> (real \<times> real \<times> real) option" where
  "hueTerms c1Prime c2Prime h1Prime h2Prime =
     (if c1Prime = 0 \<or> c2Prime = 0 then
        Some (0, 0, h1Prime + h2Prime)
      else do {
        let deltaSmallHPrime =
          (if \<bar>h1Prime - h2Prime\<bar> \<le> 180 then h2Prime - h1Prime
           else if h2Prime \<le> h1Prime then h2Prime - h1Prime + 360
           else h2Prime - h1Prime - 360);
        r \<leftarrow> Math_sqrt (c1Prime * c2Prime);
        let deltaBigHPrime = 2 * r * sind (deltaSmallHPrime / 2);
        let hBarPrime =
          (if \<bar>h1Prime - h2Prime\<bar> \<le> 180 then (h1Prime + h2Prime) / 2
           else if (h1Prime + h2Prime) < 360 then (h1Prime + h2Prime + 360) / 2
           else (h1Prime + h2Prime - 360) / 2);
        Some (deltaSmallHPrime, deltaBigHPrime, hBarPrime)
      })"

definition T_of :: "real \<Rightarrow> real" where
  "T_of hBarPrime =
     1 - 0.17 * cosd (hBarPrime - 30) +
         0.24 * cosd (2 * hBarPrime) +
         0.32 * cosd (3 * hBarPrime + 6) -
         0.2 * cosd (4 * hBarPrime - 63)"

definition Rt_of :: "real \<Rightarrow> real \<Rightarrow> real" where
  "Rt_of cCoeff hBarPrime =
     (let RtCoeff = 60 * exp (- ((hBarPrime - 275) / 25) * ((hBarPrime - 275) / 25))
      in -2 * cCoeff * sind RtCoeff)"

record ciede2000_locals =
  deltaLPrime :: real
  lBar :: real
  cBar :: real
  cCoeff :: real
  a1Prime :: real
  a2Prime :: real
  c1Prime :: real
  c2Prime :: real
  cBarPrime :: real
  deltaCPrime :: real
  h1Prime :: real
  h2Prime :: real
  deltaSmallHPrime :: real
  deltaBigHPrime :: real
  hBarPrime :: real
  T :: real
  sl :: real
  sc :: real
  sh :: real
  Rt :: real
  firstTerm :: real
  secondTerm :: real
  thirdTerm :: real
  fourthTerm :: real

definition ciede2000_formula ::
  "real \<Rightarrow> real \<Rightarrow> real \<Rightarrow> real \<Rightarrow> real \<Rightarrow> real \<Rightarrow> ciede2000_locals option" where
  "ciede2000_formula l1 a1 b1 l2 a2 b2 = do {
     lch1 \<leftarrow> labToLch [l1, a1, b1];
     lch2 \<leftarrow> labToLch [l2, a2, b2];
     let c1 = lch1 ! 1;
     let c2 = lch2 ! 1;
     let deltaLPrime = l2 - l1;
     let lBar = (l1 + l2) / 2;
     let cBar = (c1 + c2) / 2;
     cCoeff \<leftarrow> cCoeff_of cBar;
     let a1Prime = a1 + (a1 / 2) * (1 - cCoeff);
     let a2Prime = a2 + (a2 / 2) * (1 - cCoeff);
     c1Prime \<leftarrow> Math_sqrt (a1Prime * a1Prime + b1 * b1);
     c2Prime \<leftarrow> Math_sqrt (a2Prime * a2Prime + b2 * b2);
     let cBarPrime = (c1Prime + c2Prime) / 2;
     let deltaCPrime = c2Prime - c1Prime;
     let h1Prime = hPrime_of a1Prime b1;
     let h2Prime = hPrime_of a2Prime b2;
     (deltaSmallHPrime, deltaBigHPrime, hBarPrime) \<leftarrow>
        hueTerms c1Prime c2Prime h1Prime h2Prime;
     let T = T_of hBarPrime;
     let slCoeff = (lBar - 50) * (lBar - 50);
     r \<leftarrow> Math_sqrt (20 + slCoeff);
     let sl = 1 + (0.015 * slCoeff) / r;
     let sc = 1 + 0.045 * cBarPrime;
     let sh = 1 + 0.015 * cBarPrime * T;
     let Rt = Rt_of cCoeff hBarPrime;
     let kl = 1;
     let kc = 1;
     let kh = 1;
     let firstTerm = deltaLPrime / (kl * sl);
     let secondTerm = deltaCPrime / (kc * sc);
     let thirdTerm = deltaBigHPrime / (kh * sh);
     let fourthTerm = Rt * secondTerm * thirdTerm;
     Some \<lparr>deltaLPrime = deltaLPrime, lBar = lBar, cBar = cBar, cCoeff = cCoeff,
       a1Prime = a1Prime, a2Prime = a2Prime, c1Prime = c1Prime, c2Prime = c2Prime,
       cBarPrime = cBarPrime, deltaCPrime = deltaCPrime, h1Prime = h1Prime,
       h2Prime = h2Prime, deltaSmallHPrime = deltaSmallHPrime,
       deltaBigHPrime = deltaBigHPrime, hBarPrime = hBarPrime, T = T, sl = sl, sc = sc,
       sh = sh, Rt = Rt, firstTerm = firstTerm, secondTerm = secondTerm,
       thirdTerm = thirdTerm, fourthTerm = fourthTerm\<rparr>
   }"

fun ciede2000_terms :: "Color \<Rightarrow> Color \<Rightarrow> ciede2000_locals option" where
  "ciede2000_terms [l1, a1, b1] [l2, a2, b2] = ciede2000_formula l1 a1 b1 l2 a2 b2"

definition ciede2000_body :: "Color \<Rightarrow> Color \<Rightarrow> real option" where
  "ciede2000_body x y = do {
     v \<leftarrow> ciede2000_terms x y;
     Math_sqrt (firstTerm v * firstTerm v + secondTerm v * secondTerm v +
                thirdTerm v * thirdTerm v + fourthTerm v)
   }"

definition ciede2000 :: "real list \<Rightarrow> real list \<Rightarrow> ColorError + real option" where
  "ciede2000 = validateColorInputs False ciede2000_body"

text \<open>
  \<^verbatim>\<open>cmc1984\<close>, with the weights it selects kept beside its value. The weights are
  computed before the hue difference \<open>deltaH\<close>, the one constant of the function that can
  be NaN; so the weights are there whether the value is a number or NaN.
\<close>

record cmc1984_locals =
  cmc_l :: real
  cmc_c :: real
  cmc_T :: real
  cmc_sl :: real
  cmc_sc :: real
  cmc_sh :: real

definition cmc1984_formula ::
  "real \<Rightarrow> real \<Rightarrow> real \<Rightarrow> real \<Rightarrow> real \<Rightarrow> real \<Rightarrow> string option \<Rightarrow>
     (cmc1984_locals \<times> real option) option" where
  "cmc1984_formula l1 a1 b1 l2 a2 b2 thresholdTypeArg =
     (let thresholdType =
            (case thresholdTypeArg of None \<Rightarrow> ''acceptability'' | Some s \<Rightarrow> s);
          l = (if thresholdType = ''acceptability'' then 2 else 1);
          c = (if thresholdType = ''acceptability'' then 1 else 1)
      in do {
        lch1 \<leftarrow> labToLch [l1, a1, b1];
        lch2 \<leftarrow> labToLch [l2, a2, b2];
        let c1 = lch1 ! 1;
        let h1 = lch1 ! 2;
        let c2 = lch2 ! 1;
        let c1Pow4 = c1 * c1 * c1 * c1;
        F \<leftarrow> Math_sqrt (c1Pow4 / (c1Pow4 + 1900));
        let T = (if h1 \<ge> 164 \<and> h1 \<le> 345 then 0.56 + \<bar>0.2 * cosd (h1 + 168)\<bar>
                 else 0.36 + \<bar>0.4 * cosd (h1 + 35)\<bar>);
        let sl = (if l1 < 16 then 0.511 else (0.040975 * l1) / (1 + 0.01765 * l1));
        let sc = ((0.0638 * c1) / (1 + 0.0131 * c1)) + 0.638;
        let sh = sc * (F * T + 1 - F);
        let deltaA = a1 - a2;
        let deltaB = b1 - b2;
        let deltaC = c1 - c2;
        Some (\<lparr>cmc_l = l, cmc_c = c, cmc_T = T, cmc_sl = sl, cmc_sc = sc, cmc_sh = sh\<rparr>,
          do {
            deltaH \<leftarrow> Math_sqrt (deltaA * deltaA + deltaB * deltaB - deltaC * deltaC);
            let firstTerm = (l1 - l2) / (l * sl);
            let secondTerm = (c1 - c2) / (c * sc);
            let thirdTerm = deltaH / sh;
            Math_sqrt (firstTerm * firstTerm + secondTerm * secondTerm +
                       thirdTerm * thirdTerm)
          })
      })"

fun cmc1984_terms ::
  "Color \<Rightarrow> Color \<Rightarrow> string option \<Rightarrow> (cmc1984_locals \<times> real option) option" where
  "cmc1984_terms [l1, a1, b1] [l2, a2, b2] thresholdType =
     cmc1984_formula l1 a1 b1 l2 a2 b2 thresholdType"

definition cmc1984_body :: "Color \<Rightarrow> Color \<Rightarrow> string option \<Rightarrow> real option" where
  "cmc1984_body x y thresholdType =
     (case cmc1984_terms x y thresholdType of None \<Rightarrow> None | Some (v, r) \<Rightarrow> r)"

definition cmc1984 ::
  "real list \<Rightarrow> real list \<Rightarrow> string option \<Rightarrow> ColorError + real option" where
  "cmc1984 x y thresholdType =
     validateColorInputs False (\<lambda>c0 c1. cmc1984_body c0 c1 thresholdType) x y"

section \<open>Validation\<close>

lemma checkColor_three:
  "checkColor [l, a, b] d =
     (if 0 \<le> l \<and> l \<le> 100 \<and> -128 \<le> a \<and> a \<le> 127 \<and> -128 \<le> b \<and> b \<le> 127
      then Inr [l, a, b]
      else Inl (CoordinateRangeError [l, a, b]
             [0 \<le> l \<and> l \<le> 100, -128 \<le> a \<and> a \<le> 127, -128 \<le> b \<and> b \<le> 127]))"
  by (simp add: checkColor_def NUM_CHANNELS_def)

lemma three_or_more: "3 \<le> length (x::'a list) \<Longrightarrow> \<exists>l a b r. x = l # a # b # r"
  by (cases x; simp; rename_tac y ys; case_tac ys; simp; rename_tac z zs; case_tac zs; simp)

text \<open>
  Claim C4. \<^verbatim>\<open>checkColor\<close> fails with a ChannelCountError whenever the input does not
  have 3 elements, unless excess channels are discarded and there are more than 3, in which
  case the first 3 are kept. It then fails with a CoordinateRangeError when a channel of
  the 3-channel color is outside L in [0, 100], a in [-128, 127], b in [-128, 127], and the
  error has a line for exactly the channels outside their range; otherwise it returns the
  3-channel color. The count is checked before the ranges: an input of the wrong count
  gets the ChannelCountError whatever its values are. The examples of the specification
  are the last five conjuncts.
\<close>

theorem checkColor_contract:
  "(length x \<noteq> 3 \<and> \<not> (discard \<and> 3 < length x) \<longrightarrow>
      checkColor x discard = Inl (ChannelCountError x 3)) \<and>
   (length x = 3 \<or> (discard \<and> 3 < length x) \<longrightarrow>
      (\<exists>l a b. take 3 x = [l, a, b] \<and>
         (if 0 \<le> l \<and> l \<le> 100 \<and> -128 \<le> a \<and> a \<le> 127 \<and> -128 \<le> b \<and> b \<le> 127
          then checkColor x discard = Inr [l, a, b]
          else checkColor x discard =
                 Inl (CoordinateRangeError [l, a, b]
                   [0 \<le> l \<and> l \<le> 100, -128 \<le> a \<and> a \<le> 127, -128 \<le> b \<and> b \<le> 127]) \<and>
               err_lines (CoordinateRangeError [l, a, b]
                   [0 \<le> l \<and> l \<le> 100, -128 \<le> a \<and> a \<le> 127, -128 \<le> b \<and> b \<le> 127]) =
                   (if 0 \<le> l \<and> l \<le> 100 then [] else [Expected ''l*'' l ''[0, 100]'']) @
                   (if -128 \<le> a \<and> a \<le> 127 then [] else [Expected ''a*'' a ''[-128, 127]'']) @
                   (if -128 \<le> b \<and> b \<le> 127 then [] else [Expected ''b*'' b ''[-128, 127]''])))) \<and>
   checkColor [1, 2, 3, 4] False = Inl (ChannelCountError [1, 2, 3, 4] 3) \<and>
   checkColor [1, 2, 3, 4] True = Inr [1, 2, 3] \<and>
   checkColor [1, 2] True = Inl (ChannelCountError [1, 2] 3) \<and>
   checkColor [1, 2] False = Inl (ChannelCountError [1, 2] 3) \<and>
   checkColor [200, 200, 200] discard =
     Inl (CoordinateRangeError [200, 200, 200] [False, False, False])"
proof (intro conjI impI)
  assume "length x \<noteq> 3 \<and> \<not> (discard \<and> 3 < length x)"
  then show "checkColor x discard = Inl (ChannelCountError x 3)"
    by (auto simp: checkColor_def NUM_CHANNELS_def)
next
  assume h: "length x = 3 \<or> (discard \<and> 3 < length x)"
  then have "3 \<le> length x" by auto
  then obtain l a b r where x: "x = l # a # b # r"
    using three_or_more by blast
  have t: "take 3 x = [l, a, b]"
    by (simp add: x)
  have c: "checkColor x discard = checkColor [l, a, b] discard"
    using h by (auto simp: checkColor_def NUM_CHANNELS_def x)
  show "\<exists>l a b. take 3 x = [l, a, b] \<and>
         (if 0 \<le> l \<and> l \<le> 100 \<and> -128 \<le> a \<and> a \<le> 127 \<and> -128 \<le> b \<and> b \<le> 127
          then checkColor x discard = Inr [l, a, b]
          else checkColor x discard =
                 Inl (CoordinateRangeError [l, a, b]
                   [0 \<le> l \<and> l \<le> 100, -128 \<le> a \<and> a \<le> 127, -128 \<le> b \<and> b \<le> 127]) \<and>
               err_lines (CoordinateRangeError [l, a, b]
                   [0 \<le> l \<and> l \<le> 100, -128 \<le> a \<and> a \<le> 127, -128 \<le> b \<and> b \<le> 127]) =
                   (if 0 \<le> l \<and> l \<le> 100 then [] else [Expected ''l*'' l ''[0, 100]'']) @
                   (if -128 \<le> a \<and> a \<le> 127 then [] else [Expected ''a*'' a ''[-128, 127]'']) @
                   (if -128 \<le> b \<and> b \<le> 127 then [] else [Expected ''b*'' b ''[-128, 127]'']))"
    apply (rule exI [of _ l], rule exI [of _ a], rule exI [of _ b])
    apply (simp only: t c checkColor_three)
    apply auto
    done
qed (simp_all add: checkColor_def NUM_CHANNELS_def)

theorem checkColor_contract_witness:
  "checkColor [1, 2] True = Inl (ChannelCountError [1, 2] 3) \<and>
   checkColor [50, 200, 0, 7] True =
     Inl (CoordinateRangeError [50, 200, 0] [True, False, True]) \<and> 
   err_lines (CoordinateRangeError [50, 200, 0] [True, False, True]) =
     [Expected ''a*'' 200 ''[-128, 127]'']"
  using checkColor_contract [of "[1, 2]" True] checkColor_contract [of "[50, 200, 0, 7]" True]
  by (simp)


section \<open>Facts about the formulas\<close>

lemma Math_sqrt_Some: "0 \<le> x \<Longrightarrow> Math_sqrt x = Some (sqrt x)"
  by (simp add: Math_sqrt_def)

lemma checkColor_valid:
  assumes "checkColor x False = Inr c"
  shows "\<exists>l a b. x = [l, a, b] \<and> c = [l, a, b] \<and> 0 \<le> l \<and> l \<le> 100 \<and>
           -128 \<le> a \<and> a \<le> 127 \<and> -128 \<le> b \<and> b \<le> 127"
proof -
  have len: "length x = 3"
    using assms by (auto simp: checkColor_def NUM_CHANNELS_def split: if_splits)
  then obtain l a b r where x: "x = l # a # b # r"
    using three_or_more [of x] by auto
  with len have x3: "x = [l, a, b]"
    by simp
  show ?thesis
    using assms unfolding x3 checkColor_three by (auto split: if_splits)
qed

lemma validateColorInputs_valid:
  "checkColor x False = Inr x \<Longrightarrow> checkColor y False = Inr y \<Longrightarrow>
   validateColorInputs False f x y = Inr (f x y)"
  by (simp add: validateColorInputs_def)

lemma labToLch_Some:
  "labToLch [L, a, b] =
     Some [L, sqrt (a * a + b * b),
           shiftUp (shiftDown (if sqrt (a * a + b * b) \<le> 0 then 0 else atan2d b a))]"
  by (simp add: Math_sqrt_Some Let_def)

lemma cCoeff_of_Some:
  "0 \<le> cb \<Longrightarrow> cCoeff_of cb = Some (sqrt (cb ^ 7 / (cb ^ 7 + 25 ^ 7)))"
  by (simp add: cCoeff_of_def Let_def Math_sqrt_Some)

lemma cie1976_same: "cie1976_body [l, a, b] [l, a, b] = Some 0"
  by (simp add: Math_sqrt_Some)

lemma cie1994_same: "cie1994_body [l, a, b] [l, a, b] t = Some 0"
  by (simp add: cie1994_formula_def Math_sqrt_Some Let_def)

lemma hueTerms_same: "0 \<le> c \<Longrightarrow> \<exists>hb. hueTerms c c h h = Some (0, 0, hb)"
  by (simp add: hueTerms_def Math_sqrt_Some Let_def sind_def degToRad_def)

lemma Math_sqrt_sumsq: "Math_sqrt (a * a + b * b) = Some (sqrt (a * a + b * b))"
  by (simp add: Math_sqrt_Some)

lemma Math_sqrt_20: "Math_sqrt (20 + x * x) = Some (sqrt (20 + x * x))"
  by (simp add: Math_sqrt_Some)

lemma ratio_lt_1: "0 \<le> (p::real) \<Longrightarrow> 0 < q \<Longrightarrow> p / (p + q) < 1"
  by (simp add: divide_less_eq)

lemma cCoeff_of_total:
  "\<exists>cc. cCoeff_of ((sqrt (a1 * a1 + b1 * b1) + sqrt (a2 * a2 + b2 * b2)) / 2) = Some cc \<and>
        0 \<le> cc \<and> cc < 1"
proof -
  let ?cb = "(sqrt (a1 * a1 + b1 * b1) + sqrt (a2 * a2 + b2 * b2)) / 2"
  have cb: "0 \<le> ?cb" by simp
  have p: "0 \<le> ?cb ^ 7" using cb by (rule zero_le_power)
  have "?cb ^ 7 / (?cb ^ 7 + 25 ^ 7) < 1"
    using p by (intro ratio_lt_1) simp_all
  then have "sqrt (?cb ^ 7 / (?cb ^ 7 + 25 ^ 7)) < 1"
    by (simp add: real_sqrt_lt_1_iff)
  moreover have "0 \<le> sqrt (?cb ^ 7 / (?cb ^ 7 + 25 ^ 7))"
    using p by simp
  ultimately show ?thesis
    using cCoeff_of_Some [OF cb] by blast
qed

lemma hueTerms_total:
  assumes "0 \<le> c1p" "0 \<le> c2p"
  shows "\<exists>dh dH hb. hueTerms c1p c2p h1p h2p = Some (dh, dH, hb)"
  using assms by (simp add: hueTerms_def Let_def Math_sqrt_Some)

lemma ciede2000_formula_fields:
  "\<exists>v. ciede2000_formula l1 a1 b1 l2 a2 b2 = Some v \<and>
     deltaLPrime v = l2 - l1 \<and>
     lBar v = (l1 + l2) / 2 \<and>
     cBar v = (sqrt (a1 * a1 + b1 * b1) + sqrt (a2 * a2 + b2 * b2)) / 2 \<and>
     cCoeff_of (cBar v) = Some (cCoeff v) \<and>
     a1Prime v = a1 + (a1 / 2) * (1 - cCoeff v) \<and>
     a2Prime v = a2 + (a2 / 2) * (1 - cCoeff v) \<and>
     c1Prime v = sqrt (a1Prime v * a1Prime v + b1 * b1) \<and>
     c2Prime v = sqrt (a2Prime v * a2Prime v + b2 * b2) \<and>
     cBarPrime v = (c1Prime v + c2Prime v) / 2 \<and>
     deltaCPrime v = c2Prime v - c1Prime v \<and>
     h1Prime v = hPrime_of (a1Prime v) b1 \<and>
     h2Prime v = hPrime_of (a2Prime v) b2 \<and>
     hueTerms (c1Prime v) (c2Prime v) (h1Prime v) (h2Prime v) =
       Some (deltaSmallHPrime v, deltaBigHPrime v, hBarPrime v) \<and>
     T v = T_of (hBarPrime v) \<and>
     sl v = 1 + (0.015 * ((lBar v - 50) * (lBar v - 50))) /
                  sqrt (20 + (lBar v - 50) * (lBar v - 50)) \<and>
     sc v = 1 + 0.045 * cBarPrime v \<and>
     sh v = 1 + 0.015 * cBarPrime v * T v \<and>
     Rt v = Rt_of (cCoeff v) (hBarPrime v) \<and>
     firstTerm v = deltaLPrime v / (1 * sl v) \<and>
     secondTerm v = deltaCPrime v / (1 * sc v) \<and>
     thirdTerm v = deltaBigHPrime v / (1 * sh v) \<and>
     fourthTerm v = Rt v * secondTerm v * thirdTerm v"
proof -
  obtain cc where cc:
    "cCoeff_of ((sqrt (a1 * a1 + b1 * b1) + sqrt (a2 * a2 + b2 * b2)) / 2) = Some cc"
    using cCoeff_of_total by blast
  let ?a1p = "a1 + (a1 / 2) * (1 - cc)"
  let ?a2p = "a2 + (a2 / 2) * (1 - cc)"
  let ?c1p = "sqrt (?a1p * ?a1p + b1 * b1)"
  let ?c2p = "sqrt (?a2p * ?a2p + b2 * b2)"
  obtain dh dH hb where ht:
    "hueTerms ?c1p ?c2p (hPrime_of ?a1p b1) (hPrime_of ?a2p b2) = Some (dh, dH, hb)"
  proof -
    have "0 \<le> ?c1p" "0 \<le> ?c2p"
      by simp_all
    then show ?thesis
      using hueTerms_total [of ?c1p ?c2p "hPrime_of ?a1p b1" "hPrime_of ?a2p b2"] that
      by blast
  qed
  have "\<exists>v. ciede2000_formula l1 a1 b1 l2 a2 b2 = Some v"
    unfolding ciede2000_formula_def
    by (simp only: labToLch_Some Let_def bind.bind_lunit One_nat_def nth_Cons_Suc nth_Cons_0
        cc Math_sqrt_sumsq Math_sqrt_20 ht prod.case) blast
  then obtain v where v:  "ciede2000_formula l1 a1 b1 l2 a2 b2 = Some v" by blast
  have v': "v = the (ciede2000_formula l1 a1 b1 l2 a2 b2)" using v by simp
  show ?thesis
    apply (rule exI [of _ v])
    apply (simp only: v)
    apply (simp only: v')
    unfolding ciede2000_formula_def
    apply (simp only: labToLch_Some Let_def bind.bind_lunit One_nat_def nth_Cons_Suc nth_Cons_0
        cc Math_sqrt_sumsq Math_sqrt_20 ht prod.case option.sel ciede2000_locals.simps)
    done
qed

lemma ciede2000_same: "ciede2000_body [l, a, b] [l, a, b] = Some 0"
proof -
  obtain v where v: "ciede2000_formula l a b l a b = Some v"
    and dl: "deltaLPrime v = l - l"
    and a1: "a1Prime v = a + (a / 2) * (1 - cCoeff v)"
    and a2: "a2Prime v = a + (a / 2) * (1 - cCoeff v)"
    and c1: "c1Prime v = sqrt (a1Prime v * a1Prime v + b * b)"
    and c2: "c2Prime v = sqrt (a2Prime v * a2Prime v + b * b)"
    and dc: "deltaCPrime v = c2Prime v - c1Prime v"
    and h1: "h1Prime v = hPrime_of (a1Prime v) b"
    and h2: "h2Prime v = hPrime_of (a2Prime v) b"
    and ht: "hueTerms (c1Prime v) (c2Prime v) (h1Prime v) (h2Prime v) =
       Some (deltaSmallHPrime v, deltaBigHPrime v, hBarPrime v)"
    and t1: "firstTerm v = deltaLPrime v / (1 * sl v)"
    and t2: "secondTerm v = deltaCPrime v / (1 * sc v)"
    and t3: "thirdTerm v = deltaBigHPrime v / (1 * sh v)"
    and t4: "fourthTerm v = Rt v * secondTerm v * thirdTerm v"
    using ciede2000_formula_fields [of l a b l a b] by blast
  have aa: "a2Prime v = a1Prime v" using a1 a2 by simp
  have cc: "c2Prime v = c1Prime v" using c1 c2 aa by simp
  have hh: "h2Prime v = h1Prime v" using h1 h2 aa by simp
  have "0 \<le> c1Prime v" using c1 by simp
  then obtain hb where "hueTerms (c1Prime v) (c1Prime v) (h1Prime v) (h1Prime v) = Some (0, 0, hb)"
    using hueTerms_same by blast
  with ht have dH: "deltaBigHPrime v = 0"
    by (simp add: cc hh)
  have "firstTerm v = 0" "secondTerm v = 0" "thirdTerm v = 0" "fourthTerm v = 0"
    by (simp_all add: t1 t2 t3 t4 dl dc cc dH)
  then show ?thesis
    by (simp add: ciede2000_body_def v Math_sqrt_Some)
qed

lemma cmc1984_same: "cmc1984_body [l, a, b] [l, a, b] t = Some 0"
  by (simp add: cmc1984_body_def cmc1984_formula_def labToLch_Some Math_sqrt_Some Let_def
      del: labToLch.simps)

section \<open>Identical colors\<close>

text \<open>
  Claim C3. For every color whose three channels are within their bounds, each of the four
  formulas gives 0 for the color and itself: \<^verbatim>\<open>cie1976\<close>, \<^verbatim>\<open>cie1994\<close> whatever the
  application type (given, unknown or left out), \<^verbatim>\<open>ciede2000\<close>, and \<^verbatim>\<open>cmc1984\<close>
  whatever the threshold type. The result is the number 0, not NaN.
\<close>

theorem identical_colors_zero:
  assumes "0 \<le> l" "l \<le> 100" "-128 \<le> a" "a \<le> 127" "-128 \<le> b" "b \<le> 127"
  shows "cie1976 [l, a, b] [l, a, b] = Inr (Some 0) \<and>
         cie1994 [l, a, b] [l, a, b] applicationType = Inr (Some 0) \<and>
         ciede2000 [l, a, b] [l, a, b] = Inr (Some 0) \<and>
         cmc1984 [l, a, b] [l, a, b] thresholdType = Inr (Some 0)"
proof -
  have ok: "checkColor [l, a, b] False = Inr [l, a, b]"
    using assms by (simp add: checkColor_three)
  show ?thesis
    unfolding cie1976_def cie1994_def ciede2000_def cmc1984_def
    by (simp only: validateColorInputs_valid [OF ok ok] cie1976_same cie1994_same
        ciede2000_same cmc1984_same simp_thms)
qed

theorem identical_colors_zero_witness:
  "cie1976 [50, 20, -30] [50, 20, -30] = Inr (Some 0) \<and>
   cie1994 [50, 20, -30] [50, 20, -30] (Some ''textiles'') = Inr (Some 0) \<and>
   ciede2000 [50, 20, -30] [50, 20, -30] = Inr (Some 0) \<and>
   cmc1984 [50, 20, -30] [50, 20, -30] None = Inr (Some 0)"
  using identical_colors_zero [of 50 20 "-30" "Some ''textiles''" None] by simp

section \<open>The range of the arctangent in degrees\<close>

lemma Math_atan2_range: "- pi < Math_atan2 y x \<and> Math_atan2 y x \<le> pi"
proof -
  have lo: "- (pi / 2) < arctan (y / x)" and hi: "arctan (y / x) < pi / 2"
    using arctan_lbound [of "y / x"] arctan_ubound [of "y / x"] by simp_all
  consider "0 < x" | "x < 0" "0 \<le> y" | "x < 0" "y < 0" | "x = 0"
    by linarith
  then show ?thesis
  proof cases
    case 1
    then show ?thesis using lo hi pi_gt_zero by (simp add: Math_atan2_def; linarith?)
  next
    case 2
    then have "y / x \<le> 0" by (simp add: divide_nonneg_neg)
    then have "arctan (y / x) \<le> 0" using arctan_monotone' [of "y / x" 0] by simp
    then show ?thesis using 2 lo pi_gt_zero by (simp add: Math_atan2_def; linarith?)
  next
    case 3
    then have "0 < y / x" by (simp add: divide_neg_neg)
    then have "0 < arctan (y / x)" using arctan_monotone [of 0 "y / x"] by simp
    then show ?thesis using 3 hi pi_gt_zero by (simp add: Math_atan2_def; linarith?)
  next
    case 4
    then show ?thesis using pi_gt_zero by (simp add: Math_atan2_def; linarith?)
  qed
qed

lemma atan2d_range: "-180 < atan2d y x \<and> atan2d y x \<le> 180"
proof -
  have r: "- pi < Math_atan2 y x" "Math_atan2 y x \<le> pi"
    using Math_atan2_range by simp_all
  define k where "k = 180 / pi"
  have k: "0 < k" "pi * k = 180"
    using pi_gt_zero by (simp_all add: k_def)
  have "(- pi) * k < Math_atan2 y x * k"
    using r(1) k(1) by (rule mult_strict_right_mono)
  moreover have "Math_atan2 y x * k \<le> pi * k"
    using r(2) k(1) by (intro mult_right_mono) simp_all
  moreover have "atan2d y x = Math_atan2 y x * k"
    by (simp add: atan2d_def radToDeg_def k_def)
  ultimately show ?thesis
    using k(2) by simp
qed

section \<open>The hues of ciede2000\<close>

lemma trunc_small: "\<bar>r\<bar> < 1 \<Longrightarrow> trunc r = 0"
proof (cases "0 \<le> r")
  case True
  assume "\<bar>r\<bar> < 1"
  with True have "\<lfloor>r\<rfloor> = 0" by (simp add: floor_eq_iff)
  with True show ?thesis by (simp add: trunc_def)
next
  case False
  assume "\<bar>r\<bar> < 1"
  with False have "\<lceil>r\<rceil> = 0" by (simp add: ceiling_eq_iff)
  with False show ?thesis by (simp add: trunc_def)
qed

lemma js_rem_small: "\<bar>x\<bar> < 360 \<Longrightarrow> js_rem x 360 = x"
proof -
  assume "\<bar>x\<bar> < 360"
  then have "\<bar>x / 360\<bar> < 1" by simp
  then have "trunc (x / 360) = 0" by (rule trunc_small)
  then show ?thesis by (simp add: js_rem_def)
qed

lemma hPrime_of_eq: "hPrime_of aPrime b = (if aPrime = 0 \<and> b = 0 then 0 else atan2d b aPrime)"
proof -
  have "\<bar>atan2d b aPrime\<bar> < 360"
    using atan2d_range [of b aPrime] by linarith
  then show ?thesis
    by (simp add: hPrime_of_def js_rem_small)
qed


lemma atan2d_down: "atan2d (-1) 0 = -90"
  by (simp add: atan2d_def radToDeg_def Math_atan2_def)

text \<open>
  Claim C2 says that the hues \<open>h1'\<close> and \<open>h2'\<close> of \<^verbatim>\<open>ciede2000\<close> always lie in
  \<open>[0, 360)\<close>. The remainder \<^verbatim>\<open>% 360\<close> keeps the sign of the angle, and \<open>atan2d\<close> is within
  \<open>(-180, 180]\<close>, so the remainder changes nothing (\<open>hPrime_of_eq\<close>) and a color with
  \<open>b < 0\<close> has a negative hue. For the color \<open>[50, 0, -1]\<close> compared with itself, both hues
  and their mean are -90, where the reduction into \<open>[0, 360)\<close> gives 270.
\<close>

theorem ciede2000_negative_hue:
  "\<exists>v. ciede2000_terms [50, 0, -1] [50, 0, -1] = Some v \<and>
       h1Prime v = -90 \<and> h2Prime v = -90 \<and> hBarPrime v = -90"
proof -
  obtain v where v: "ciede2000_formula 50 0 (-1) 50 0 (-1) = Some v"
    and a1: "a1Prime v = 0 + (0 / 2) * (1 - cCoeff v)"
    and a2: "a2Prime v = 0 + (0 / 2) * (1 - cCoeff v)"
    and c1: "c1Prime v = sqrt (a1Prime v * a1Prime v + (-1) * (-1))"
    and c2: "c2Prime v = sqrt (a2Prime v * a2Prime v + (-1) * (-1))"
    and h1: "h1Prime v = hPrime_of (a1Prime v) (-1)"
    and h2: "h2Prime v = hPrime_of (a2Prime v) (-1)"
    and ht: "hueTerms (c1Prime v) (c2Prime v) (h1Prime v) (h2Prime v) =
       Some (deltaSmallHPrime v, deltaBigHPrime v, hBarPrime v)"
    using ciede2000_formula_fields [of 50 0 "-1" 50 0 "-1"] by blast
  have h1': "h1Prime v = -90" and h2': "h2Prime v = -90"
    using h1 h2 a1 a2 by (simp_all add: hPrime_of_eq atan2d_down)
  have c: "c1Prime v = 1" "c2Prime v = 1"
    using c1 c2 a1 a2 by simp_all
  have "hBarPrime v = -90"
    using ht by (simp add: hueTerms_def c h1' h2' Math_sqrt_Some Let_def)
  then show ?thesis
    using v h1' h2' by simp
qed

section \<open>The hue terms of ciede2000\<close>

lemma hueTerms_zero_chroma:
  assumes "c1p = 0 \<or> c2p = 0" "hueTerms c1p c2p h1p h2p = Some (dh, dH, hb)"
  shows "dh = 0 \<and> dH = 0 \<and> hb = h1p + h2p"
  using assms by (auto simp: hueTerms_def)

lemma hueTerms_chroma:
  assumes c: "0 \<le> c1p" "0 \<le> c2p" "c1p \<noteq> 0" "c2p \<noteq> 0"
    and ht: "hueTerms c1p c2p h1p h2p = Some (dh, dH, hb)"
  shows "dh = (if \<bar>h1p - h2p\<bar> \<le> 180 then h2p - h1p
               else if h2p \<le> h1p then h2p - h1p + 360 else h2p - h1p - 360)"
    and "dH = 2 * sqrt (c1p * c2p) * sind (dh / 2)"
    and "hb = (if \<bar>h1p - h2p\<bar> \<le> 180 then (h1p + h2p) / 2
               else if h1p + h2p < 360 then (h1p + h2p + 360) / 2
               else (h1p + h2p - 360) / 2)"
proof -
  have "0 \<le> c1p * c2p" using c by simp
  then have s: "Math_sqrt (c1p * c2p) = Some (sqrt (c1p * c2p))"
    by (rule Math_sqrt_Some)
  let ?d = "if \<bar>h1p - h2p\<bar> \<le> 180 then h2p - h1p
            else if h2p \<le> h1p then h2p - h1p + 360 else h2p - h1p - 360"
  from ht c(3,4) have d: "dh = ?d" and D: "dH = 2 * sqrt (c1p * c2p) * sind (?d / 2)"
    and h: "hb = (if \<bar>h1p - h2p\<bar> \<le> 180 then (h1p + h2p) / 2
               else if h1p + h2p < 360 then (h1p + h2p + 360) / 2
               else (h1p + h2p - 360) / 2)"
    by (auto simp: hueTerms_def s Let_def)
  show "dh = ?d" by (rule d)
  show "dH = 2 * sqrt (c1p * c2p) * sind (dh / 2)"
    unfolding d by (rule D)
  show "hb = (if \<bar>h1p - h2p\<bar> \<le> 180 then (h1p + h2p) / 2
               else if h1p + h2p < 360 then (h1p + h2p + 360) / 2
               else (h1p + h2p - 360) / 2)"
    by (rule h)
qed




section \<open>The value of ciede2000\<close>




section \<open>Symmetry of ciede2000\<close>

lemma sind_minus: "sind (- x) = - sind x"
  by (simp add: sind_def degToRad_def)

lemma hueTerms_swap:
  assumes c: "0 \<le> c1p" "0 \<le> c2p"
    and ht: "hueTerms c1p c2p h1p h2p = Some (dh, dH, hb)"
  shows "hueTerms c2p c1p h2p h1p = Some (- dh, - dH, hb)"
proof (cases "c1p = 0 \<or> c2p = 0")
  case True
  then have "dh = 0 \<and> dH = 0 \<and> hb = h1p + h2p"
    using ht by (rule hueTerms_zero_chroma)
  moreover have "hueTerms c2p c1p h2p h1p = Some (0, 0, h2p + h1p)"
    using True by (auto simp: hueTerms_def)
  ultimately show ?thesis
    by (simp add: add.commute)
next
  case False
  then have n: "c1p \<noteq> 0" "c2p \<noteq> 0"
    by simp_all
  obtain dh' dH' hb' where ht': "hueTerms c2p c1p h2p h1p = Some (dh', dH', hb')"
    using hueTerms_total [OF c(2) c(1)] by blast
  note e = hueTerms_chroma [OF c n ht]
  note e' = hueTerms_chroma [OF c(2) c(1) n(2) n(1) ht']
  have a: "\<bar>h2p - h1p\<bar> = \<bar>h1p - h2p\<bar>"
    by (rule abs_minus_commute)
  have d: "dh' = - dh"
    unfolding e(1) e'(1) a by auto
  have "dH' = 2 * sqrt (c1p * c2p) * sind (- (dh / 2))"
    unfolding e'(2) d by (simp add: mult.commute)
  then have D: "dH' = - dH"
    unfolding e(2) sind_minus by simp
  have h: "hb' = hb"
    unfolding e(3) e'(3) a by (simp add: add.commute)
  show ?thesis
    using ht' d D h by simp
qed

text \<open>
  Claim C10. \<^verbatim>\<open>ciede2000\<close> is symmetric on colors within the bounds. Exchanging the
  arguments negates \<open>\<Delta>L'\<close>, \<open>\<Delta>C'\<close>, \<open>\<Delta>h'\<close> and \<open>\<Delta>H'\<close>, and leaves \<open>h\<bar>'\<close>, \<open>T\<close>, \<open>Sl\<close>,
  \<open>Sc\<close>, \<open>Sh\<close>, \<open>Rt\<close>, the square of each of the three terms and the cross term as they
  were.
\<close>

theorem ciede2000_symmetric:
  assumes "0 \<le> l1" "l1 \<le> 100" "-128 \<le> a1" "a1 \<le> 127" "-128 \<le> b1" "b1 \<le> 127"
    and "0 \<le> l2" "l2 \<le> 100" "-128 \<le> a2" "a2 \<le> 127" "-128 \<le> b2" "b2 \<le> 127"
  shows "ciede2000 [l1, a1, b1] [l2, a2, b2] = ciede2000 [l2, a2, b2] [l1, a1, b1] \<and>
     (\<exists>v w. ciede2000_terms [l1, a1, b1] [l2, a2, b2] = Some v \<and>
            ciede2000_terms [l2, a2, b2] [l1, a1, b1] = Some w \<and>
            deltaLPrime w = - deltaLPrime v \<and>
            deltaCPrime w = - deltaCPrime v \<and>
            deltaSmallHPrime w = - deltaSmallHPrime v \<and>
            deltaBigHPrime w = - deltaBigHPrime v \<and>
            hBarPrime w = hBarPrime v \<and>
            T w = T v \<and> sl w = sl v \<and> sc w = sc v \<and> sh w = sh v \<and> Rt w = Rt v \<and>
            (firstTerm w)\<^sup>2 = (firstTerm v)\<^sup>2 \<and>
            (secondTerm w)\<^sup>2 = (secondTerm v)\<^sup>2 \<and>
            (thirdTerm w)\<^sup>2 = (thirdTerm v)\<^sup>2 \<and>
            fourthTerm w = fourthTerm v)"
proof -
  obtain v where v: "ciede2000_formula l1 a1 b1 l2 a2 b2 = Some v"
    and dl: "deltaLPrime v = l2 - l1"
    and lb: "lBar v = (l1 + l2) / 2"
    and cb: "cBar v = (sqrt (a1 * a1 + b1 * b1) + sqrt (a2 * a2 + b2 * b2)) / 2"
    and cc: "cCoeff_of (cBar v) = Some (cCoeff v)"
    and a1: "a1Prime v = a1 + (a1 / 2) * (1 - cCoeff v)"
    and a2: "a2Prime v = a2 + (a2 / 2) * (1 - cCoeff v)"
    and c1: "c1Prime v = sqrt (a1Prime v * a1Prime v + b1 * b1)"
    and c2: "c2Prime v = sqrt (a2Prime v * a2Prime v + b2 * b2)"
    and cp: "cBarPrime v = (c1Prime v + c2Prime v) / 2"
    and dc: "deltaCPrime v = c2Prime v - c1Prime v"
    and h1: "h1Prime v = hPrime_of (a1Prime v) b1"
    and h2: "h2Prime v = hPrime_of (a2Prime v) b2"
    and ht: "hueTerms (c1Prime v) (c2Prime v) (h1Prime v) (h2Prime v) =
       Some (deltaSmallHPrime v, deltaBigHPrime v, hBarPrime v)"
    and tt: "T v = T_of (hBarPrime v)"
    and sl: "sl v = 1 + (0.015 * ((lBar v - 50) * (lBar v - 50))) /
                  sqrt (20 + (lBar v - 50) * (lBar v - 50))"
    and sc: "sc v = 1 + 0.045 * cBarPrime v"
    and sh: "sh v = 1 + 0.015 * cBarPrime v * T v"
    and rt: "Rt v = Rt_of (cCoeff v) (hBarPrime v)"
    and t1: "firstTerm v = deltaLPrime v / (1 * sl v)"
    and t2: "secondTerm v = deltaCPrime v / (1 * sc v)"
    and t3: "thirdTerm v = deltaBigHPrime v / (1 * sh v)"
    and t4: "fourthTerm v = Rt v * secondTerm v * thirdTerm v"
    using ciede2000_formula_fields [of l1 a1 b1 l2 a2 b2] by blast
  obtain w where w: "ciede2000_formula l2 a2 b2 l1 a1 b1 = Some w"
    and dl': "deltaLPrime w = l1 - l2"
    and lb': "lBar w = (l2 + l1) / 2"
    and cb': "cBar w = (sqrt (a2 * a2 + b2 * b2) + sqrt (a1 * a1 + b1 * b1)) / 2"
    and cc': "cCoeff_of (cBar w) = Some (cCoeff w)"
    and a1': "a1Prime w = a2 + (a2 / 2) * (1 - cCoeff w)"
    and a2': "a2Prime w = a1 + (a1 / 2) * (1 - cCoeff w)"
    and c1': "c1Prime w = sqrt (a1Prime w * a1Prime w + b2 * b2)"
    and c2': "c2Prime w = sqrt (a2Prime w * a2Prime w + b1 * b1)"
    and cp': "cBarPrime w = (c1Prime w + c2Prime w) / 2"
    and dc': "deltaCPrime w = c2Prime w - c1Prime w"
    and h1': "h1Prime w = hPrime_of (a1Prime w) b2"
    and h2': "h2Prime w = hPrime_of (a2Prime w) b1"
    and ht': "hueTerms (c1Prime w) (c2Prime w) (h1Prime w) (h2Prime w) =
       Some (deltaSmallHPrime w, deltaBigHPrime w, hBarPrime w)"
    and tt': "T w = T_of (hBarPrime w)"
    and sl': "sl w = 1 + (0.015 * ((lBar w - 50) * (lBar w - 50))) /
                  sqrt (20 + (lBar w - 50) * (lBar w - 50))"
    and sc': "sc w = 1 + 0.045 * cBarPrime w"
    and sh': "sh w = 1 + 0.015 * cBarPrime w * T w"
    and rt': "Rt w = Rt_of (cCoeff w) (hBarPrime w)"
    and t1': "firstTerm w = deltaLPrime w / (1 * sl w)"
    and t2': "secondTerm w = deltaCPrime w / (1 * sc w)"
    and t3': "thirdTerm w = deltaBigHPrime w / (1 * sh w)"
    and t4': "fourthTerm w = Rt w * secondTerm w * thirdTerm w"
    using ciede2000_formula_fields [of l2 a2 b2 l1 a1 b1] by blast
  have ecb: "cBar w = cBar v"
    by (simp add: cb cb' add.commute)
  have ecc: "cCoeff w = cCoeff v"
    using cc cc' ecb by simp
  have ea: "a1Prime w = a2Prime v" "a2Prime w = a1Prime v"
    by (simp_all add: a1 a2 a1' a2' ecc)
  have ec: "c1Prime w = c2Prime v" "c2Prime w = c1Prime v"
    by (simp_all add: c1 c2 c1' c2' ea)
  have eh: "h1Prime w = h2Prime v" "h2Prime w = h1Prime v"
    by (simp_all add: h1 h2 h1' h2' ea)
  have c0: "0 \<le> c1Prime v" "0 \<le> c2Prime v"
    by (simp_all add: c1 c2)
  have "hueTerms (c2Prime v) (c1Prime v) (h2Prime v) (h1Prime v) =
      Some (- deltaSmallHPrime v, - deltaBigHPrime v, hBarPrime v)"
    using c0 ht by (rule hueTerms_swap)
  with ht' have eht: "deltaSmallHPrime w = - deltaSmallHPrime v"
    "deltaBigHPrime w = - deltaBigHPrime v" "hBarPrime w = hBarPrime v"
    by (simp_all add: ec eh)
  have edl: "deltaLPrime w = - deltaLPrime v"
    by (simp add: dl dl')
  have edc: "deltaCPrime w = - deltaCPrime v"
    by (simp add: dc dc' ec)
  have elb: "lBar w = lBar v"
    by (simp add: lb lb' add.commute)
  have ecp: "cBarPrime w = cBarPrime v"
    by (simp add: cp cp' ec add.commute)
  have eT: "T w = T v"
    by (simp add: tt tt' eht)
  have esl: "sl w = sl v"
    by (simp add: sl sl' elb)
  have esc: "sc w = sc v"
    by (simp add: sc sc' ecp)
  have esh: "sh w = sh v"
    by (simp add: sh sh' ecp eT)
  have ert: "Rt w = Rt v"
    by (simp add: rt rt' ecc eht)
  have e1: "firstTerm w = - firstTerm v"
    by (simp add: t1 t1' edl esl)
  have e2: "secondTerm w = - secondTerm v"
    by (simp add: t2 t2' edc esc)
  have e3: "thirdTerm w = - thirdTerm v"
    by (simp add: t3 t3' eht esh)
  have e4: "fourthTerm w = fourthTerm v"
    by (simp add: t4 t4' ert e2 e3)
  have ok: "checkColor [l1, a1, b1] False = Inr [l1, a1, b1]"
    "checkColor [l2, a2, b2] False = Inr [l2, a2, b2]"
    using assms by (simp_all add: checkColor_three)
  have "ciede2000_body [l1, a1, b1] [l2, a2, b2] = ciede2000_body [l2, a2, b2] [l1, a1, b1]"
    by (simp add: ciede2000_body_def v w e1 e2 e3 e4)
  then have sym: "ciede2000 [l1, a1, b1] [l2, a2, b2] = ciede2000 [l2, a2, b2] [l1, a1, b1]"
    unfolding ciede2000_def validateColorInputs_valid [OF ok]
      validateColorInputs_valid [OF ok(2) ok(1)] by simp
  have tv: "ciede2000_terms [l1, a1, b1] [l2, a2, b2] = Some v"
    and tw: "ciede2000_terms [l2, a2, b2] [l1, a1, b1] = Some w"
    using v w by simp_all
  have sq: "(firstTerm w)\<^sup>2 = (firstTerm v)\<^sup>2" "(secondTerm w)\<^sup>2 = (secondTerm v)\<^sup>2"
    "(thirdTerm w)\<^sup>2 = (thirdTerm v)\<^sup>2"
    by (simp_all add: e1 e2 e3)
  show ?thesis
    using sym tv tw edl edc eht eT esl esc esh ert sq e4 by blast
qed

theorem ciede2000_symmetric_witness:
  "ciede2000 [55, 60, 48] [55, 65, 53] = ciede2000 [55, 65, 53] [55, 60, 48]"
  using ciede2000_symmetric [of 55 60 48 55 65 53] by simp

section \<open>The decorated formulas reject a wrong channel count\<close>

lemma checkColor_count:
  "length x \<noteq> 3 \<Longrightarrow> checkColor x False = Inl (ChannelCountError x 3)"
  by (simp add: checkColor_def NUM_CHANNELS_def)

lemma checkColor_Inr_length: "checkColor x False = Inr c \<Longrightarrow> length x = 3"
  using checkColor_count [of x] by (cases "length x = 3") simp_all

lemma validateColorInputs_count:
  "(length x \<noteq> 3 \<longrightarrow>
      validateColorInputs False f x y = Inl (ChannelCountError x 3)) \<and>
   (length y \<noteq> 3 \<longrightarrow>
      (\<forall>c. checkColor x False = Inr c \<longrightarrow>
         validateColorInputs False f x y = Inl (ChannelCountError y 3)) \<and>
      (\<forall>e. checkColor x False = Inl e \<longrightarrow> validateColorInputs False f x y = Inl e)) \<and>
   (length x \<noteq> 3 \<or> length y \<noteq> 3 \<longrightarrow> isl (validateColorInputs False f x y))"
  by (auto simp: validateColorInputs_def checkColor_count split: sum.splits
      dest: checkColor_Inr_length)

text \<open>
  Claim C5 says that a color of the wrong count in either position makes each formula fail
  with a ChannelCountError. The decorator checks the first color completely before it
  looks at the second: when the first color has 3 channels out of range and the second has
  4 channels, the call fails with the CoordinateRangeError of the first.
\<close>

theorem count_error_mixed_counterexample:
  "cie1976 [200, 200, 200] [0, 0, 0, 0] =
     Inl (CoordinateRangeError [200, 200, 200] [False, False, False]) \<and>
   cie1994 [200, 200, 200] [0, 0, 0, 0] None =
     Inl (CoordinateRangeError [200, 200, 200] [False, False, False]) \<and>
   ciede2000 [200, 200, 200] [0, 0, 0, 0] =
     Inl (CoordinateRangeError [200, 200, 200] [False, False, False]) \<and>
   cmc1984 [200, 200, 200] [0, 0, 0, 0] None =
     Inl (CoordinateRangeError [200, 200, 200] [False, False, False])"
  by (simp add: cie1976_def cie1994_def ciede2000_def cmc1984_def validateColorInputs_def
      checkColor_three)

text \<open>
  Claim C5, amended. Each of the four formulas is the decorator, with
  \<open>discardExcessChannels = False\<close>, around its computation. For a result \<open>r\<close> of any of
  them: a first color whose count is not 3 gives the ChannelCountError of the first
  color; a second color whose count is not 3 gives the ChannelCountError of the second
  color when the first color passes its check, and the error of the first color when it
  does not; and in each of these cases the call fails, so no number is returned.
\<close>

theorem wrong_count_rejected:
  assumes "r \<in> {cie1976 x y, cie1994 x y applicationType, ciede2000 x y,
                 cmc1984 x y thresholdType}"
  shows "(length x \<noteq> 3 \<longrightarrow> r = Inl (ChannelCountError x 3)) \<and>
         (length y \<noteq> 3 \<longrightarrow>
            (\<forall>c. checkColor x False = Inr c \<longrightarrow> r = Inl (ChannelCountError y 3)) \<and>
            (\<forall>e. checkColor x False = Inl e \<longrightarrow> r = Inl e)) \<and>
         (length x \<noteq> 3 \<or> length y \<noteq> 3 \<longrightarrow> isl r)"
proof -
  from assms obtain f :: "Color \<Rightarrow> Color \<Rightarrow> real option"
    where "r = validateColorInputs False f x y"
    unfolding cie1976_def cie1994_def ciede2000_def cmc1984_def by auto
  then show ?thesis
    using validateColorInputs_count [of x f y] by simp
qed

theorem wrong_count_rejected_witness:
  "cie1976 [0, 0, 0, 0] [50, 60, 48] = Inl (ChannelCountError [0, 0, 0, 0] 3) \<and>
   cie1994 [50, 60, 48] [0, 0, 0, 0] (Some ''textiles'') = Inl (ChannelCountError [0, 0, 0, 0] 3) \<and>
   ciede2000 [50, 60, 48] [1, 2] = Inl (ChannelCountError [1, 2] 3) \<and>
   cmc1984 [200, 200, 200] [0, 0, 0, 0] None =
     Inl (CoordinateRangeError [200, 200, 200] [False, False, False]) \<and>
   isl (cmc1984 [200, 200, 200] [0, 0, 0, 0] None)"
  using wrong_count_rejected [of "cie1976 [0, 0, 0, 0] [50, 60, 48]" "[0, 0, 0, 0]" "[50, 60, 48]"]
    wrong_count_rejected [of "cie1994 [50, 60, 48] [0, 0, 0, 0] (Some ''textiles'')"
      "[50, 60, 48]" "[0, 0, 0, 0]" "Some ''textiles''"]
    wrong_count_rejected [of "ciede2000 [50, 60, 48] [1, 2]" "[50, 60, 48]" "[1, 2]"]
    wrong_count_rejected [of "cmc1984 [200, 200, 200] [0, 0, 0, 0] None" "[200, 200, 200]"
      "[0, 0, 0, 0]" _ None]
  by (simp add: checkColor_three)

section \<open>The radicand of the hue difference\<close>

text \<open>
  The hue difference of \<^verbatim>\<open>cie1994\<close> and \<^verbatim>\<open>cmc1984\<close> is the square root of
  \<open>deltaA\<^sup>2 + deltaB\<^sup>2 - deltaC\<^sup>2\<close>. In exact arithmetic this number is never negative, by
  the inequality of Cauchy and Schwarz. In double precision the roots and squares are
  rounded and it can come out negative; the square root is then NaN, and so is the
  value of the formula. The statements about the two formulas below therefore leave
  \<open>Math_sqrt\<close> of this number as it is, and do not use the inequality.
\<close>

lemma cauchy_schwarz_2:
  fixes a1 b1 a2 b2 :: real
  shows "a1 * a2 + b1 * b2 \<le> sqrt (a1 * a1 + b1 * b1) * sqrt (a2 * a2 + b2 * b2)"
proof -
  have "(a1 * a1 + b1 * b1) * (a2 * a2 + b2 * b2) - (a1 * a2 + b1 * b2)\<^sup>2 =
        (a1 * b2 - a2 * b1)\<^sup>2"
    by (simp add: algebra_simps power2_eq_square)
  moreover have "0 \<le> (a1 * b2 - a2 * b1)\<^sup>2"
    by simp
  ultimately have "(a1 * a2 + b1 * b2)\<^sup>2 \<le> (a1 * a1 + b1 * b1) * (a2 * a2 + b2 * b2)"
    by linarith
  then have "sqrt ((a1 * a2 + b1 * b2)\<^sup>2) \<le> sqrt ((a1 * a1 + b1 * b1) * (a2 * a2 + b2 * b2))"
    by (rule real_sqrt_le_mono)
  then have "\<bar>a1 * a2 + b1 * b2\<bar> \<le> sqrt (a1 * a1 + b1 * b1) * sqrt (a2 * a2 + b2 * b2)"
    by (simp add: real_sqrt_mult)
  then show ?thesis
    by linarith
qed

lemma deltaH_radicand_nonneg:
  fixes a1 b1 a2 b2 :: real
  shows "0 \<le> (a1 - a2) * (a1 - a2) + (b1 - b2) * (b1 - b2) -
           (sqrt (a1 * a1 + b1 * b1) - sqrt (a2 * a2 + b2 * b2)) *
           (sqrt (a1 * a1 + b1 * b1) - sqrt (a2 * a2 + b2 * b2))"
proof -
  define c1 where "c1 = sqrt (a1 * a1 + b1 * b1)"
  define c2 where "c2 = sqrt (a2 * a2 + b2 * b2)"
  have s1: "c1 * c1 = a1 * a1 + b1 * b1"
    unfolding c1_def by simp
  have s2: "c2 * c2 = a2 * a2 + b2 * b2"
    unfolding c2_def by simp
  have cs: "a1 * a2 + b1 * b2 \<le> c1 * c2"
    unfolding c1_def c2_def by (rule cauchy_schwarz_2)
  have "(a1 - a2) * (a1 - a2) + (b1 - b2) * (b1 - b2) - (c1 - c2) * (c1 - c2) =
        (a1 * a1 + b1 * b1) + (a2 * a2 + b2 * b2) - c1 * c1 - c2 * c2 +
        2 * (c1 * c2 - (a1 * a2 + b1 * b2))"
    by (simp add: algebra_simps)
  also have "\<dots> = 2 * (c1 * c2 - (a1 * a2 + b1 * b2))"
    using s1 s2 by simp
  finally show ?thesis
    using cs unfolding c1_def c2_def by simp
qed

lemma Math_sqrt_sumsq3:
  "Math_sqrt (a * a + b * b + c * c) = Some (sqrt (a * a + b * b + c * c))"
  by (simp add: Math_sqrt_Some)

lemma bind_as_case: "Option.bind m f = (case m of None \<Rightarrow> None | Some x \<Rightarrow> f x)"
  by (cases m) simp_all

section \<open>cie1994\<close>







section \<open>cmc1984\<close>

lemma Math_sqrt_F:
  "Math_sqrt (c * c * c * c / (c * c * c * c + 1900)) =
   Some (sqrt (c * c * c * c / (c * c * c * c + 1900)))"
proof -
  have "c * c * c * c = (c * c) * (c * c)"
    by simp
  then have "0 \<le> c * c * c * c"
    by (simp only: zero_le_square)
  then show ?thesis
    by (intro Math_sqrt_Some divide_nonneg_nonneg) simp_all
qed

lemma cmc1984_formula_value:
  "cmc1984_formula l1 a1 b1 l2 a2 b2 t =
     (let ty = (case t of None \<Rightarrow> ''acceptability'' | Some s \<Rightarrow> s);
          l = (if ty = ''acceptability'' then 2 else 1);
          c = (if ty = ''acceptability'' then 1 else 1);
          c1 = sqrt (a1 * a1 + b1 * b1);
          h1 = shiftUp (shiftDown (if sqrt (a1 * a1 + b1 * b1) \<le> 0 then 0 else atan2d b1 a1));
          c2 = sqrt (a2 * a2 + b2 * b2);
          F = sqrt (c1 * c1 * c1 * c1 / (c1 * c1 * c1 * c1 + 1900));
          T' = (if h1 \<ge> 164 \<and> h1 \<le> 345 then 0.56 + \<bar>0.2 * cosd (h1 + 168)\<bar>
                else 0.36 + \<bar>0.4 * cosd (h1 + 35)\<bar>);
          Sl = (if l1 < 16 then 0.511 else (0.040975 * l1) / (1 + 0.01765 * l1));
          Sc = ((0.0638 * c1) / (1 + 0.0131 * c1)) + 0.638;
          Sh = Sc * (F * T' + 1 - F);
          t1 = (l1 - l2) / (l * Sl);
          t2 = (c1 - c2) / (c * Sc)
      in Some (\<lparr>cmc_l = l, cmc_c = c, cmc_T = T', cmc_sl = Sl, cmc_sc = Sc, cmc_sh = Sh\<rparr>,
           case Math_sqrt ((a1 - a2) * (a1 - a2) + (b1 - b2) * (b1 - b2) -
                           (c1 - c2) * (c1 - c2)) of
             None \<Rightarrow> None
           | Some dH \<Rightarrow> Some (sqrt (t1 * t1 + t2 * t2 + dH / Sh * (dH / Sh)))))"
  unfolding cmc1984_formula_def
  by (simp only: Let_def labToLch_Some bind.bind_lunit One_nat_def nth_Cons_Suc nth_Cons_0
      numeral_2_eq_2 Math_sqrt_F Math_sqrt_sumsq3)
    (simp only: bind_as_case)




section \<open>Divisors\<close>

text \<open>
  A division of the source is a division of reals here, which is right as long as the
  divisor is not zero. No divisor of the three longer formulas is ever zero: each is
  positive, whatever the colors are.
\<close>

lemma T_of_lower: "0.07 \<le> T_of hb"
proof -
  have "cosd (hb - 30) \<le> 1" "- 1 \<le> cosd (2 * hb)" "- 1 \<le> cosd (3 * hb + 6)"
    "cosd (4 * hb - 63) \<le> 1"
    by (simp_all add: cosd_def)
  moreover have "T_of hb = 1 - (17 / 100) * cosd (hb - 30) + (24 / 100) * cosd (2 * hb) +
      (32 / 100) * cosd (3 * hb + 6) - (20 / 100) * cosd (4 * hb - 63)"
    by (simp add: T_of_def)
  moreover have "(0.07::real) = 7 / 100"
    by simp
  ultimately show ?thesis
    by linarith
qed

lemma ciede2000_divisors:
  assumes "ciede2000_formula l1 a1 b1 l2 a2 b2 = Some v"
  shows "0 < cBar v ^ 7 + 25 ^ 7 \<and> 0 < sqrt (20 + (lBar v - 50) * (lBar v - 50)) \<and>
         1 \<le> sl v \<and> 1 \<le> sc v \<and> 1 \<le> sh v"
proof -
  obtain w where w: "ciede2000_formula l1 a1 b1 l2 a2 b2 = Some w"
    and cb: "cBar w = (sqrt (a1 * a1 + b1 * b1) + sqrt (a2 * a2 + b2 * b2)) / 2"
    and c1: "c1Prime w = sqrt (a1Prime w * a1Prime w + b1 * b1)"
    and c2: "c2Prime w = sqrt (a2Prime w * a2Prime w + b2 * b2)"
    and cp: "cBarPrime w = (c1Prime w + c2Prime w) / 2"
    and tt: "T w = T_of (hBarPrime w)"
    and sl: "sl w = 1 + (0.015 * ((lBar w - 50) * (lBar w - 50))) /
                  sqrt (20 + (lBar w - 50) * (lBar w - 50))"
    and sc: "sc w = 1 + 0.045 * cBarPrime w"
    and sh: "sh w = 1 + 0.015 * cBarPrime w * T w"
    using ciede2000_formula_fields [of l1 a1 b1 l2 a2 b2] by blast
  have vw: "v = w"
    using assms w by simp
  have "0 \<le> cBar w"
    by (simp add: cb)
  then have "0 \<le> cBar w ^ 7"
    by (rule zero_le_power)
  moreover have "(0::real) < 25 ^ 7"
    by simp
  ultimately have d1: "0 < cBar w ^ 7 + 25 ^ 7"
    by (rule add_nonneg_pos)
  have q: "0 < 20 + (lBar w - 50) * (lBar w - 50)"
    by (simp add: add_pos_nonneg)
  then have d2: "0 < sqrt (20 + (lBar w - 50) * (lBar w - 50))"
    by (simp only: real_sqrt_gt_zero)
  have "0 \<le> (0.015 * ((lBar w - 50) * (lBar w - 50))) /
                  sqrt (20 + (lBar w - 50) * (lBar w - 50))"
    using d2 by (intro divide_nonneg_nonneg) simp_all
  then have d3: "1 \<le> sl w"
    unfolding sl by linarith
  have cp0: "0 \<le> cBarPrime w"
    by (simp add: cp c1 c2)
  then have d4: "1 \<le> sc w"
    by (simp add: sc)
  have "0 \<le> T w"
    using T_of_lower [of "hBarPrime w"] by (simp add: tt)
  then have "0 \<le> 0.015 * cBarPrime w * T w"
    using cp0 by simp
  then have d5: "1 \<le> sh w"
    unfolding sh by linarith
  show ?thesis
    unfolding vw using d1 d2 d3 d4 d5 by blast
qed

lemma cie1994_divisors:
  fixes k :: real
  assumes "0 \<le> k"
  shows "1 \<le> 1 * (1 + k * sqrt (a * a + b * b))"
  using assms by simp

lemma cmc1984_divisors:
  assumes "cmc1984_formula l1 a1 b1 l2 a2 b2 t = Some (v, res)"
  shows "0 < cmc_l v * cmc_sl v \<and> 0 < cmc_c v * cmc_sc v \<and> 0 < cmc_sh v \<and>
         (\<not> l1 < 16 \<longrightarrow> 0 < 1 + 0.01765 * l1)"
proof -
  define c1 where "c1 = sqrt (a1 * a1 + b1 * b1)"
  define F where "F = sqrt (c1 * c1 * c1 * c1 / (c1 * c1 * c1 * c1 + 1900))"
  have c0: "0 \<le> c1"
    by (simp add: c1_def)
  note e = assms [unfolded cmc1984_formula_value Let_def, folded c1_def, folded F_def]
  have l: "1 \<le> cmc_l v" and c: "cmc_c v = 1"
    using e by auto
  have sl: "0 < cmc_sl v"
  proof (cases "l1 < 16")
    case True
    then show ?thesis using e by auto
  next
    case False
    then have "0 < (0.040975 * l1) / (1 + 0.01765 * l1)"
      by (intro divide_pos_pos) simp_all
    then show ?thesis using False e by auto
  qed
  have sc: "cmc_sc v = (0.0638 * c1) / (1 + 0.0131 * c1) + 0.638"
    using e by auto
  have "0 \<le> (0.0638 * c1) / (1 + 0.0131 * c1)"
    using c0 by (intro divide_nonneg_nonneg) simp_all
  then have scp: "0 < cmc_sc v"
    unfolding sc by (rule add_nonneg_pos) simp
  have p: "0 \<le> c1 * c1 * c1 * c1"
  proof -
    have "c1 * c1 * c1 * c1 = (c1 * c1) * (c1 * c1)" by simp
    then show ?thesis by (simp only: zero_le_square)
  qed
  then have "c1 * c1 * c1 * c1 / (c1 * c1 * c1 * c1 + 1900) < 1"
    by (intro ratio_lt_1) simp_all
  then have F1: "F < 1"
    unfolding F_def by (simp add: real_sqrt_lt_1_iff)
  have F0: "0 \<le> F"
    unfolding F_def using p by simp
  have T0: "0 < cmc_T v"
    using e by (auto simp: add_pos_nonneg)
  have "0 \<le> F * cmc_T v"
    using F0 T0 by simp
  then have "0 < F * cmc_T v + 1 - F"
    using F1 by linarith
  moreover have "cmc_sh v = cmc_sc v * (F * cmc_T v + 1 - F)"
    using e by auto
  ultimately have sh: "0 < cmc_sh v"
    using scp by simp
  have "0 < cmc_l v * cmc_sl v"
    using l sl by simp
  moreover have "\<not> l1 < 16 \<longrightarrow> 0 < 1 + 0.01765 * l1"
    by auto
  ultimately show ?thesis
    using scp sh c by simp
qed

end
